theory Spec2Isabelle
  imports Main
begin

section \<open>Python text and byte strings\<close>

text \<open>
  The module \<^verbatim>\<open>bumpversion/vcs.py\<close> drives the executables \<^verbatim>\<open>git\<close>,
  \<^verbatim>\<open>hg\<close> and \<^verbatim>\<open>svn\<close> and reads what they print. Both Python's \<^verbatim>\<open>bytes\<close>
  and its \<^verbatim>\<open>str\<close> are modelled as \<^typ>\<open>string\<close>, a list of 8-bit characters: a
  \<^verbatim>\<open>str\<close> stands for its UTF-8 encoding, so \<^verbatim>\<open>encode("utf-8")\<close> is the identity.
  \<^verbatim>\<open>bytes.decode()\<close> is the identity on bytes that are UTF-8 and raises
  \<^verbatim>\<open>UnicodeDecodeError\<close> on all others: \<open>py_decode\<close> below, through which
  \<^verbatim>\<open>assert_nondirty\<close> reads the status lines. The output of \<^verbatim>\<open>git describe\<close> and of
  \<^verbatim>\<open>svn info\<close> is read as text as it stands: what is stated about them is about
  output that is UTF-8.
\<close>

type_synonym bytes = string

abbreviation LF :: char where "LF \<equiv> CHR 0x0A"
abbreviation CR :: char where "CR \<equiv> CHR 0x0D"

text \<open>\<^verbatim>\<open>bytes.strip()\<close> removes the six ASCII whitespace bytes.\<close>

definition bytes_isspace :: "char \<Rightarrow> bool" where
  "bytes_isspace c = (c \<in> set [CHR '' '', CHR 0x09, LF, CHR 0x0B, CHR 0x0C, CR])"

text \<open>\<^verbatim>\<open>str.strip()\<close> also removes the four ASCII separators 0x1C to 0x1F.\<close>

definition str_isspace :: "char \<Rightarrow> bool" where
  "str_isspace c = (c \<in> set [CHR '' '', CHR 0x09, LF, CHR 0x0B, CHR 0x0C, CR,
                               CHR 0x1C, CHR 0x1D, CHR 0x1E, CHR 0x1F])"

definition strip_with :: "(char \<Rightarrow> bool) \<Rightarrow> string \<Rightarrow> string" where
  "strip_with sp s = rev (dropWhile sp (rev (dropWhile sp s)))"

definition bytes_strip :: "bytes \<Rightarrow> bytes" where
  "bytes_strip = strip_with bytes_isspace"

definition str_strip :: "string \<Rightarrow> string" where
  "str_strip = strip_with str_isspace"

text \<open>\<^verbatim>\<open>s.lstrip(chars)\<close> drops every leading character that is a member of \<^verbatim>\<open>chars\<close>.\<close>

definition py_lstrip :: "string \<Rightarrow> string \<Rightarrow> string" where
  "py_lstrip chars s = dropWhile (\<lambda>c. c \<in> set chars) s"

definition py_startswith :: "string \<Rightarrow> string \<Rightarrow> bool" where
  "py_startswith s prefix = (take (length prefix) s = prefix)"

text \<open>\<^verbatim>\<open>s.split(sep)\<close> for a separator of one character: the result is never empty.\<close>

fun py_split :: "char \<Rightarrow> string \<Rightarrow> string list" where
  "py_split sep [] = [[]]"
| "py_split sep (c # cs) =
     (if c = sep then [] # py_split sep cs
      else (case py_split sep cs of
              [] \<Rightarrow> [[c]]
            | t # ts \<Rightarrow> (c # t) # ts))"

fun py_join :: "string \<Rightarrow> string list \<Rightarrow> string" where
  "py_join sep [] = []"
| "py_join sep [x] = x"
| "py_join sep (x # y # ys) = x @ sep @ py_join sep (y # ys)"

text \<open>
  \<^verbatim>\<open>bytes.splitlines()\<close> breaks at LF, CR and CR LF; a final line break adds no
  empty last line. \<open>acc\<close> holds the current line, reversed.
\<close>

fun splitlines_from :: "string \<Rightarrow> bytes \<Rightarrow> bytes list" where
  "splitlines_from acc [] = (if acc = [] then [] else [rev acc])"
| "splitlines_from acc (c # cs) =
     (if c = LF then rev acc # splitlines_from [] cs
      else if c = CR then
        (case cs of
           [] \<Rightarrow> [rev acc]
         | d # ds \<Rightarrow> if d = LF then rev acc # splitlines_from [] ds
                     else rev acc # splitlines_from [] cs)
      else splitlines_from (c # acc) cs)"

definition py_splitlines :: "bytes \<Rightarrow> bytes list" where
  "py_splitlines s = splitlines_from [] s"

definition upper_char :: "char \<Rightarrow> char" where
  "upper_char c =
     (let n = (of_char c :: nat) in if 97 \<le> n \<and> n \<le> 122 then char_of (n - 32) else c)"

definition py_upper :: "string \<Rightarrow> string" where
  "py_upper s = map upper_char s"

text \<open>
  \<^verbatim>\<open>s.rindex(sub)\<close>: the highest index at which \<^verbatim>\<open>sub\<close> occurs in \<^verbatim>\<open>s\<close>;
  \<open>None\<close> stands for the \<^verbatim>\<open>ValueError\<close> Python raises when there is none.
\<close>

definition py_rindex :: "string \<Rightarrow> string \<Rightarrow> nat option" where
  "py_rindex s sub =
     (case filter (\<lambda>i. take (length sub) (drop i s) = sub)
             (rev [0 ..< Suc (length s) - length sub]) of
        [] \<Rightarrow> None
      | i # _ \<Rightarrow> Some i)"

text \<open>\<^verbatim>\<open>s[:k]\<close>: a negative bound counts from the end of the string.\<close>

definition py_slice_to :: "string \<Rightarrow> int \<Rightarrow> string" where
  "py_slice_to s k = (if k < 0 then take (nat (int (length s) + k)) s else take (nat k) s)"

text \<open>\<^verbatim>\<open>bool(x)\<close> for a value that is \<^verbatim>\<open>None\<close> or a string.\<close>

definition py_bool :: "string option \<Rightarrow> bool" where
  "py_bool x = (case x of None \<Rightarrow> False | Some s \<Rightarrow> s \<noteq> [])"

text \<open>
  \<^verbatim>\<open>b.decode()\<close>, the strict UTF-8 decoder: the well-formed byte sequences are those
  of the Unicode standard (no overlong form, no surrogate, nothing above U+10FFFF);
  \<open>None\<close> stands for the \<^verbatim>\<open>UnicodeDecodeError\<close> Python raises on any other byte.
\<close>

definition byte_in :: "char \<Rightarrow> nat \<Rightarrow> nat \<Rightarrow> bool" where
  "byte_in c lo hi = (lo \<le> (of_char c :: nat) \<and> (of_char c :: nat) \<le> hi)"

fun valid_utf8 :: "bytes \<Rightarrow> bool" where
  "valid_utf8 [] = True"
| "valid_utf8 (c # cs) =
     (if byte_in c 0 127 then valid_utf8 cs
      else if byte_in c 194 223 then
        (case cs of
           c1 # r \<Rightarrow> byte_in c1 128 191 \<and> valid_utf8 r
         | _ \<Rightarrow> False)
      else if byte_in c 224 239 then
        (case cs of
           c1 # c2 # r \<Rightarrow>
             byte_in c1 (if byte_in c 224 224 then 160 else 128)
                        (if byte_in c 237 237 then 159 else 191) \<and>
             byte_in c2 128 191 \<and> valid_utf8 r
         | _ \<Rightarrow> False)
      else if byte_in c 240 244 then
        (case cs of
           c1 # c2 # c3 # r \<Rightarrow>
             byte_in c1 (if byte_in c 240 240 then 144 else 128)
                        (if byte_in c 244 244 then 143 else 191) \<and>
             byte_in c2 128 191 \<and> byte_in c3 128 191 \<and> valid_utf8 r
         | _ \<Rightarrow> False)
      else False)"

definition py_decode :: "bytes \<Rightarrow> string option" where
  "py_decode b = (if valid_utf8 b then Some b else None)"

section \<open>Exceptions, processes and the world\<close>

datatype vcs = Git | Mercurial | SVN

text \<open>The \<^verbatim>\<open>errno\<close> codes the module names, with their Linux numbers.\<close>

abbreviation ENOENT :: nat where "ENOENT \<equiv> 2"
abbreviation EACCES :: nat where "EACCES \<equiv> 13"
abbreviation ENOTDIR :: nat where "ENOTDIR \<equiv> 20"

datatype exn =
    CalledProcessError "string list" int bytes
  | OSError nat
  | KeyError string
  | ValueError
  | IndexError
  | TypeError
  | UnboundLocalError string
  | UnicodeDecodeError
  | WorkingDirectoryIsDirtyException string

text \<open>
  What running an executable gives: it ran and exited with a return code and its
  captured output, or the operating system could not start it.
\<close>

datatype proc_outcome = Exited int bytes | SpawnFailed nat

type_synonym environment = "string \<rightharpoonup> string"
type_synonym filesystem = "string \<rightharpoonup> bytes"

text \<open>
  The executables are not part of the module: their behaviour is a parameter \<open>sys\<close>,
  which maps the argument vector, the environment of the child and the files to an
  outcome and the files the child leaves behind.
\<close>

type_synonym system = "string list \<Rightarrow> environment \<Rightarrow> filesystem \<Rightarrow> proc_outcome \<times> filesystem"

text \<open>
  The state the module works on: the files, the caller's \<^verbatim>\<open>os.environ\<close>, the
  children started so far (argument vector and environment), and the class attribute
  \<^verbatim>\<open>_COMMIT_COMMAND\<close> of each backend.
\<close>

record world =
  files :: filesystem
  environ :: environment
  spawned :: "(string list \<times> environment) list"
  COMMIT_COMMAND :: "vcs \<Rightarrow> string list option"

definition class_COMMIT_COMMAND :: "vcs \<Rightarrow> string list option" where
  "class_COMMIT_COMMAND cls =
     (case cls of
        Git \<Rightarrow> Some [''git'', ''commit'', ''-F'']
      | Mercurial \<Rightarrow> Some [''hg'', ''commit'', ''--logfile'']
      | SVN \<Rightarrow> Some [''svn'', ''commit'', ''--file''])"

definition TEST_USABLE_COMMAND :: "vcs \<Rightarrow> string list option" where
  "TEST_USABLE_COMMAND cls =
     (case cls of
        Git \<Rightarrow> Some [''git'', ''rev-parse'', ''--git-dir'']
      | Mercurial \<Rightarrow> Some [''hg'', ''root'']
      | SVN \<Rightarrow> None)"

definition spawn :: "system \<Rightarrow> string list \<Rightarrow> environment \<Rightarrow> world \<Rightarrow> proc_outcome \<times> world" where
  "spawn sys argv env w =
     (case sys argv env (files w) of
        (out, fs) \<Rightarrow> (out, w\<lparr>files := fs, spawned := spawned w @ [(argv, env)]\<rparr>))"

definition subprocess_call :: "system \<Rightarrow> string list \<Rightarrow> environment \<Rightarrow> world \<Rightarrow> (exn + int) \<times> world" where
  "subprocess_call sys argv env w =
     (case spawn sys argv env w of
        (Exited rc out, w') \<Rightarrow> (Inr rc, w')
      | (SpawnFailed e, w') \<Rightarrow> (Inl (OSError e), w'))"

definition check_output :: "system \<Rightarrow> string list \<Rightarrow> environment \<Rightarrow> world \<Rightarrow> (exn + bytes) \<times> world" where
  "check_output sys argv env w =
     (case spawn sys argv env w of
        (Exited rc out, w') \<Rightarrow>
          (if rc = 0 then (Inr out, w') else (Inl (CalledProcessError argv rc out), w'))
      | (SpawnFailed e, w') \<Rightarrow> (Inl (OSError e), w'))"

definition os_unlink :: "string \<Rightarrow> world \<Rightarrow> (exn + unit) \<times> world" where
  "os_unlink path w =
     (if files w path = None then (Inl (OSError ENOENT), w)
      else (Inr (), w\<lparr>files := (files w)(path := None)\<rparr>))"

section \<open>BaseVCS\<close>

text \<open>
  \<^verbatim>\<open>NamedTemporaryFile("wb", delete=False)\<close> and the write inside the \<^verbatim>\<open>with\<close>
  block: the file \<open>tmp\<close>, whose name the operating system chooses, holds the data.
\<close>

definition NamedTemporaryFile_write :: "string \<Rightarrow> bytes \<Rightarrow> world \<Rightarrow> world" where
  "NamedTemporaryFile_write tmp data w = w\<lparr>files := (files w)(tmp \<mapsto> data)\<rparr>"

text \<open>
  The loop over \<^verbatim>\<open>("current_version", "new_version")\<close>:
  \<^verbatim>\<open>env["BUMPVERSION_" + key.upper()] = str(context[key])\<close>, where a missing key
  raises \<^verbatim>\<open>KeyError\<close>.
\<close>

fun commit_env :: "(string \<rightharpoonup> string) \<Rightarrow> string list \<Rightarrow> environment \<Rightarrow> exn + environment" where
  "commit_env context [] env = Inr env"
| "commit_env context (key # keys) env =
     (case context key of
        None \<Rightarrow> Inl (KeyError key)
      | Some v \<Rightarrow> commit_env context keys (env(''BUMPVERSION_'' @ py_upper key \<mapsto> v)))"

text \<open>
  The \<^verbatim>\<open>try\<close> statement of \<^verbatim>\<open>BaseVCS.commit\<close>. The command line is put together
  inside it: a class whose \<^verbatim>\<open>_COMMIT_COMMAND\<close> is \<^verbatim>\<open>None\<close> raises
  \<^verbatim>\<open>TypeError\<close> there. The handler raises the \<^verbatim>\<open>CalledProcessError\<close> again after
  logging it (logging has no effect on the state modelled here). The \<^verbatim>\<open>finally\<close>
  clause unlinks the file, and an exception raised there replaces the one in flight.
\<close>

definition commit_try ::
  "system \<Rightarrow> string \<Rightarrow> vcs \<Rightarrow> string list \<Rightarrow> environment \<Rightarrow> world \<Rightarrow> (exn + unit) \<times> world" where
  "commit_try sys tmp cls extra env w1 =
     (case (case COMMIT_COMMAND w1 cls of
              None \<Rightarrow> (Inl TypeError, w1)
            | Some template \<Rightarrow> check_output sys (template @ [tmp] @ extra) env w1) of
        (r, w2) \<Rightarrow>
          (case os_unlink tmp w2 of
             (Inl e, w3) \<Rightarrow> (Inl e, w3)
           | (Inr u, w3) \<Rightarrow>
               (case r of
                  Inl exc \<Rightarrow> (Inl exc, w3)
                | Inr out \<Rightarrow> (Inr (), w3))))"

text \<open>
  \<^verbatim>\<open>BaseVCS.commit\<close>, which every backend inherits: the message file is written and
  the environment is built before the \<^verbatim>\<open>try\<close> statement starts.
\<close>

definition commit ::
  "system \<Rightarrow> string \<Rightarrow> vcs \<Rightarrow> string \<Rightarrow> (string \<rightharpoonup> string) \<Rightarrow> string list option \<Rightarrow> world
     \<Rightarrow> (exn + unit) \<times> world" where
  "commit sys tmp cls message context extra_args w =
     (let extra = (case extra_args of None \<Rightarrow> [] | Some xs \<Rightarrow> xs);
          w1 = NamedTemporaryFile_write tmp message w;
          env = (environ w1)(''HGENCODING'' \<mapsto> ''utf-8'')
      in case commit_env context [''current_version'', ''new_version''] env of
           Inl e \<Rightarrow> (Inl e, w1)
         | Inr env' \<Rightarrow> commit_try sys tmp cls extra env' w1)"

text \<open>
  \<^verbatim>\<open>BaseVCS.is_usable\<close>: the return code of the probe is compared with 0; an
  \<^verbatim>\<open>OSError\<close> whose code is \<^verbatim>\<open>ENOENT\<close>, \<^verbatim>\<open>EACCES\<close> or \<^verbatim>\<open>ENOTDIR\<close> gives
  \<^verbatim>\<open>False\<close>, and any other is raised again.
\<close>

definition BaseVCS_is_usable :: "system \<Rightarrow> vcs \<Rightarrow> world \<Rightarrow> (exn + bool) \<times> world" where
  "BaseVCS_is_usable sys cls w =
     (case TEST_USABLE_COMMAND cls of
        None \<Rightarrow> (Inl TypeError, w)
      | Some argv \<Rightarrow>
          (case subprocess_call sys argv (environ w) w of
             (Inr rc, w') \<Rightarrow> (Inr (rc = 0), w')
           | (Inl (OSError e), w') \<Rightarrow>
               (if e \<in> set [ENOENT, EACCES, ENOTDIR] then (Inr False, w')
                else (Inl (OSError e), w'))
           | (Inl other, w') \<Rightarrow> (Inl other, w')))"

section \<open>SVN\<close>

record RepoUrls =
  base :: "string option"
  root :: "string option"
  current :: "string option"

text \<open>The loop of \<^verbatim>\<open>SVN.current_url\<close> over the lines of \<^verbatim>\<open>svn info\<close>.\<close>

fun current_url_loop :: "string list \<Rightarrow> string option" where
  "current_url_loop [] = None"
| "current_url_loop (line # rest) =
     (if py_startswith line ''URL:'' then Some (py_lstrip ''URL: '' line)
      else current_url_loop rest)"

definition current_url :: "system \<Rightarrow> world \<Rightarrow> (exn + string option) \<times> world" where
  "current_url sys w =
     (case check_output sys [''svn'', ''info''] (environ w) w of
        (Inl e, w') \<Rightarrow> (Inl e, w')
      | (Inr out, w') \<Rightarrow> (Inr (current_url_loop (py_split LF out)), w'))"

text \<open>
  The loop of \<^verbatim>\<open>SVN.repo_urls\<close> over the folders: the first folder that occurs in
  the URL ends the loop; the result is (\<^verbatim>\<open>base\<close>, \<^verbatim>\<open>root\<close>).
\<close>

fun repo_urls_loop :: "string \<Rightarrow> string list \<Rightarrow> string option \<times> string option" where
  "repo_urls_loop curr_url [] = (None, None)"
| "repo_urls_loop curr_url (folder # rest) =
     (case py_rindex curr_url folder of
        None \<Rightarrow> repo_urls_loop curr_url rest
      | Some idx \<Rightarrow>
          (Some (py_slice_to curr_url (int idx - 1)),
           Some (py_slice_to curr_url (int idx + int (length folder)))))"

text \<open>
  The body of \<^verbatim>\<open>SVN.repo_urls\<close> after the call of \<^verbatim>\<open>current_url\<close>: no URL gives
  three times \<^verbatim>\<open>None\<close>.
\<close>

definition repo_urls_of :: "string option \<Rightarrow> RepoUrls" where
  "repo_urls_of curr_url =
     (case curr_url of
        None \<Rightarrow> \<lparr>base = None, root = None, current = None\<rparr>
      | Some url \<Rightarrow>
          (case repo_urls_loop url [''branch'', ''branches'', ''trunk''] of
             (b, r) \<Rightarrow> \<lparr>base = b, root = r, current = Some url\<rparr>))"

definition repo_urls :: "system \<Rightarrow> world \<Rightarrow> (exn + RepoUrls) \<times> world" where
  "repo_urls sys w =
     (case current_url sys w of
        (Inl e, w') \<Rightarrow> (Inl e, w')
      | (Inr curr_url, w') \<Rightarrow> (Inr (repo_urls_of curr_url), w'))"

definition SVN_is_usable :: "system \<Rightarrow> world \<Rightarrow> (exn + bool) \<times> world" where
  "SVN_is_usable sys w =
     (case repo_urls sys w of
        (Inl e, w') \<Rightarrow> (Inl e, w')
      | (Inr urls, w') \<Rightarrow> (Inr (py_bool (base urls)), w'))"

text \<open>\<^verbatim>\<open>cls.is_usable()\<close>: SVN overrides the method, Git and Mercurial inherit it.\<close>

definition is_usable :: "system \<Rightarrow> vcs \<Rightarrow> world \<Rightarrow> (exn + bool) \<times> world" where
  "is_usable sys cls w =
     (case cls of
        SVN \<Rightarrow> SVN_is_usable sys w
      | _ \<Rightarrow> BaseVCS_is_usable sys cls w)"

text \<open>
  \<^verbatim>\<open>SVN.add_path\<close>. Its only statement assigns to \<^verbatim>\<open>_COMMIT_COMMAND\<close>, which makes
  that name a local variable of the function; the right-hand side reads the local
  before it is bound, so Python raises \<^verbatim>\<open>UnboundLocalError\<close>. The class attribute is
  never read or written, and no child is started. Had the local been bound, adding the
  string \<^verbatim>\<open>_COMMIT_COMMAND[-1]\<close> to a list would raise \<^verbatim>\<open>TypeError\<close>.
\<close>

definition SVN_add_path :: "string \<Rightarrow> world \<Rightarrow> (exn + unit) \<times> world" where
  "SVN_add_path path w =
     (let locals = (Map.empty :: string \<rightharpoonup> string list)
      in case locals ''_COMMIT_COMMAND'' of
           None \<Rightarrow> (Inl (UnboundLocalError ''_COMMIT_COMMAND''), w)
         | Some c \<Rightarrow> (Inl TypeError, w))"

text \<open>
  \<^verbatim>\<open>str(b)\<close> of a byte string is its \<^verbatim>\<open>repr\<close>: \<^verbatim>\<open>b'...'\<close>, in double quotes when
  the bytes hold a single quote and no double quote, with backslash escapes.
\<close>

definition hex_digit :: "nat \<Rightarrow> char" where
  "hex_digit n = ''0123456789abcdef'' ! (n mod 16)"

definition bytes_repr_char :: "char \<Rightarrow> char \<Rightarrow> string" where
  "bytes_repr_char quote c =
     (let n = (of_char c :: nat) in
      if c = quote \<or> c = CHR 0x5C then [CHR 0x5C, c]
      else if c = CHR 0x09 then [CHR 0x5C, CHR ''t'']
      else if c = LF then [CHR 0x5C, CHR ''n'']
      else if c = CR then [CHR 0x5C, CHR ''r'']
      else if n < 32 \<or> 127 \<le> n then [CHR 0x5C, CHR ''x'', hex_digit (n div 16), hex_digit n]
      else [c])"

definition bytes_repr :: "bytes \<Rightarrow> string" where
  "bytes_repr b =
     (let quote = (if CHR 0x27 \<in> set b \<and> CHR 0x22 \<notin> set b then CHR 0x22 else CHR 0x27)
      in [CHR ''b'', quote] @ concat (map (bytes_repr_char quote) b) @ [quote])"

definition SVN_assert_nondirty :: "system \<Rightarrow> world \<Rightarrow> (exn + unit) \<times> world" where
  "SVN_assert_nondirty sys w =
     (case check_output sys [''svn'', ''status'', ''-q''] (environ w) w of
        (Inl e, w') \<Rightarrow> (Inl e, w')
      | (Inr uncommited, w') \<Rightarrow>
          (if uncommited \<noteq> [] then
             (Inl (WorkingDirectoryIsDirtyException
                (''SVN working directory is not clean:'' @ [LF] @ bytes_repr uncommited)), w')
           else (Inr (), w')))"

section \<open>Git and Mercurial\<close>

text \<open>
  The list comprehension of \<^verbatim>\<open>Git.assert_nondirty\<close> and of
  \<^verbatim>\<open>Mercurial.assert_nondirty\<close>: the stripped lines of the status output that do not
  start with \<^verbatim>\<open>??\<close>. When there is such a line, the argument of the exception is
  evaluated first: \<^verbatim>\<open>join(lines).decode()\<close> raises \<^verbatim>\<open>UnicodeDecodeError\<close> when the
  lines are not UTF-8, and \<^verbatim>\<open>WorkingDirectoryIsDirtyException\<close> is then never
  constructed.
\<close>

definition status_lines :: "bytes \<Rightarrow> bytes list" where
  "status_lines out =
     map bytes_strip
       (filter (\<lambda>line. \<not> py_startswith (bytes_strip line) ''??'') (py_splitlines out))"

definition Git_assert_nondirty :: "system \<Rightarrow> world \<Rightarrow> (exn + unit) \<times> world" where
  "Git_assert_nondirty sys w =
     (case check_output sys [''git'', ''status'', ''--porcelain''] (environ w) w of
        (Inl e, w') \<Rightarrow> (Inl e, w')
      | (Inr out, w') \<Rightarrow>
          (let lines = status_lines out in
           if lines \<noteq> [] then
             (case py_decode (py_join [LF] lines) of
                None \<Rightarrow> (Inl UnicodeDecodeError, w')
              | Some details \<Rightarrow>
                  (Inl (WorkingDirectoryIsDirtyException
                     (''Git working directory is not clean:'' @ [LF] @ details)), w'))
           else (Inr (), w')))"

definition Mercurial_assert_nondirty :: "system \<Rightarrow> world \<Rightarrow> (exn + unit) \<times> world" where
  "Mercurial_assert_nondirty sys w =
     (case check_output sys [''hg'', ''status'', ''-mard''] (environ w) w of
        (Inl e, w') \<Rightarrow> (Inl e, w')
      | (Inr out, w') \<Rightarrow>
          (let lines = status_lines out in
           if lines \<noteq> [] then
             (case py_decode (py_join [LF] lines) of
                None \<Rightarrow> (Inl UnicodeDecodeError, w')
              | Some details \<Rightarrow>
                  (Inl (WorkingDirectoryIsDirtyException
                     (''Mercurial working directory is not clean:'' @ [LF] @ details)), w'))
           else (Inr (), w')))"

definition assert_nondirty :: "system \<Rightarrow> vcs \<Rightarrow> world \<Rightarrow> (exn + unit) \<times> world" where
  "assert_nondirty sys cls w =
     (case cls of
        Git \<Rightarrow> Git_assert_nondirty sys w
      | Mercurial \<Rightarrow> Mercurial_assert_nondirty sys w
      | SVN \<Rightarrow> SVN_assert_nondirty sys w)"

subsection \<open>Tag information\<close>

text \<open>The values of the dictionary \<^verbatim>\<open>latest_tag_info\<close> returns.\<close>

datatype pyval = PBool bool | PStr string | PInt int

type_synonym TagInfo = "string \<rightharpoonup> pyval"

text \<open>
  \<^verbatim>\<open>int(s)\<close> in base 10 on ASCII text: surrounding whitespace, one optional sign, then
  digits that single underscores may separate; \<open>None\<close> stands for \<^verbatim>\<open>ValueError\<close>.
\<close>

definition is_digit :: "char \<Rightarrow> bool" where
  "is_digit c = (let n = (of_char c :: nat) in 48 \<le> n \<and> n \<le> 57)"

definition digit_val :: "char \<Rightarrow> int" where
  "digit_val c = int (of_char c) - 48"

fun digits_ok :: "string \<Rightarrow> bool" where
  "digits_ok [] = False"
| "digits_ok [c] = is_digit c"
| "digits_ok (c # d # cs) =
     (is_digit c \<and> (if d = CHR ''_'' then digits_ok cs else digits_ok (d # cs)))"

definition digits_val :: "string \<Rightarrow> int" where
  "digits_val body = foldl (\<lambda>a c. 10 * a + digit_val c) 0 (filter (\<lambda>c. c \<noteq> CHR ''_'') body)"

definition py_int :: "string \<Rightarrow> int option" where
  "py_int s =
     (let t = str_strip s;
          neg = (t \<noteq> [] \<and> hd t = CHR ''-'');
          body = (if t \<noteq> [] \<and> (hd t = CHR ''-'' \<or> hd t = CHR ''+'') then tl t else t)
      in if digits_ok body then Some (if neg then - digits_val body else digits_val body)
         else None)"

text \<open>
  The part of \<^verbatim>\<open>Git.latest_tag_info\<close> after the \<^verbatim>\<open>try\<close> statement, on the list
  \<^verbatim>\<open>describe_out\<close>. Indexing or popping an empty list raises \<^verbatim>\<open>IndexError\<close>.
\<close>

definition parse_describe :: "string list \<Rightarrow> exn + TagInfo" where
  "parse_describe describe_out =
     (if describe_out = [] then Inl IndexError
      else
        (let dirty = (str_strip (last describe_out) = ''dirty'');
             info1 = (if dirty then Map.empty(''dirty'' \<mapsto> PBool True) else Map.empty);
             d1 = (if dirty then butlast describe_out else describe_out)
         in if d1 = [] then Inl IndexError
            else
              (let info2 = info1(''commit_sha'' \<mapsto> PStr (py_lstrip ''g'' (last d1)));
                   d2 = butlast d1
               in if d2 = [] then Inl IndexError
                  else
                    (case py_int (last d2) of
                       None \<Rightarrow> Inl ValueError
                     | Some n \<Rightarrow>
                         Inr (info2(''distance_to_latest_tag'' \<mapsto> PInt n,
                                    ''current_version'' \<mapsto>
                                      PStr (py_lstrip ''v'' (py_join ''-'' (butlast d2)))))))))"

definition is_CalledProcessError :: "exn \<Rightarrow> bool" where
  "is_CalledProcessError e = (case e of CalledProcessError c r out \<Rightarrow> True | _ \<Rightarrow> False)"

definition describe_command :: "string list" where
  "describe_command =
     [''git'', ''describe'', ''--dirty'', ''--tags'', ''--long'', ''--abbrev=40'', ''--match=v*'']"

text \<open>
  \<^verbatim>\<open>Git.latest_tag_info\<close>: both commands run inside the \<^verbatim>\<open>try\<close> statement, whose
  handler turns a \<^verbatim>\<open>CalledProcessError\<close> into the empty dictionary.
\<close>

definition Git_latest_tag_info :: "system \<Rightarrow> world \<Rightarrow> (exn + TagInfo) \<times> world" where
  "Git_latest_tag_info sys w =
     (case check_output sys [''git'', ''update-index'', ''--refresh''] (environ w) w of
        (Inl e, w1) \<Rightarrow> (if is_CalledProcessError e then (Inr Map.empty, w1) else (Inl e, w1))
      | (Inr refreshed, w1) \<Rightarrow>
          (case check_output sys describe_command (environ w1) w1 of
             (Inl e, w2) \<Rightarrow> (if is_CalledProcessError e then (Inr Map.empty, w2) else (Inl e, w2))
           | (Inr out, w2) \<Rightarrow> (parse_describe (py_split (CHR ''-'') out), w2)))"

definition Mercurial_latest_tag_info :: "system \<Rightarrow> world \<Rightarrow> (exn + TagInfo) \<times> world" where
  "Mercurial_latest_tag_info sys w = (Inr Map.empty, w)"

definition SVN_latest_tag_info :: "system \<Rightarrow> world \<Rightarrow> (exn + TagInfo) \<times> world" where
  "SVN_latest_tag_info sys w = (Inr Map.empty, w)"

definition latest_tag_info :: "system \<Rightarrow> vcs \<Rightarrow> world \<Rightarrow> (exn + TagInfo) \<times> world" where
  "latest_tag_info sys cls w =
     (case cls of
        Git \<Rightarrow> Git_latest_tag_info sys w
      | Mercurial \<Rightarrow> Mercurial_latest_tag_info sys w
      | SVN \<Rightarrow> SVN_latest_tag_info sys w)"

subsection \<open>Staging a path\<close>

definition Git_add_path :: "system \<Rightarrow> string \<Rightarrow> world \<Rightarrow> (exn + unit) \<times> world" where
  "Git_add_path sys path w =
     (case check_output sys [''git'', ''add'', ''--update'', path] (environ w) w of
        (Inl e, w') \<Rightarrow> (Inl e, w')
      | (Inr out, w') \<Rightarrow> (Inr (), w'))"

definition Mercurial_add_path :: "system \<Rightarrow> string \<Rightarrow> world \<Rightarrow> (exn + unit) \<times> world" where
  "Mercurial_add_path sys path w = (Inr (), w)"

definition add_path :: "system \<Rightarrow> vcs \<Rightarrow> string \<Rightarrow> world \<Rightarrow> (exn + unit) \<times> world" where
  "add_path sys cls path w =
     (case cls of
        Git \<Rightarrow> Git_add_path sys path w
      | Mercurial \<Rightarrow> Mercurial_add_path sys path w
      | SVN \<Rightarrow> SVN_add_path path w)"

section \<open>Sample machines and states\<close>

text \<open>
  A state before any call: no files, a small environment, no child started, and the
  class attributes as the class bodies set them.
\<close>

definition initial_world :: world where
  "initial_world =
     \<lparr>files = Map.empty, environ = Map.empty(''PATH'' \<mapsto> ''/usr/bin''), spawned = [],
      COMMIT_COMMAND = class_COMMIT_COMMAND\<rparr>"

text \<open>A machine on which no executable can be started: every attempt ends in \<^verbatim>\<open>ENOENT\<close>.\<close>

definition no_executables :: system where
  "no_executables argv env fs = (SpawnFailed ENOENT, fs)"

text \<open>A machine on which every command exits with the given code and output.\<close>

definition exits_with :: "int \<Rightarrow> bytes \<Rightarrow> system" where
  "exits_with rc out argv env fs = (Exited rc out, fs)"

text \<open>A context as the caller passes it, and one that lacks \<^verbatim>\<open>new_version\<close>.\<close>

definition sample_context :: "string \<rightharpoonup> string" where
  "sample_context = [''current_version'' \<mapsto> ''1.0.0'', ''new_version'' \<mapsto> ''1.0.1'']"

definition short_context :: "string \<rightharpoonup> string" where
  "short_context = [''current_version'' \<mapsto> ''1.0.0'']"

text \<open>A repository without a matching tag: \<^verbatim>\<open>git describe\<close> exits with code 128.\<close>

definition no_tags :: system where
  "no_tags argv env fs =
     (if argv = describe_command
      then (Exited 128 ''fatal: No names found, cannot describe anything.'', fs)
      else (Exited 0 [], fs))"

text \<open>
  Two status outputs in Git's porcelain format: a modified file and an untracked one,
  and an untracked file alone.
\<close>

definition dirty_status :: bytes where
  "dirty_status = '' M setup.py'' @ [LF] @ ''?? new.txt'' @ [LF]"

definition untracked_status :: bytes where
  "untracked_status = ''?? new.txt'' @ [LF]"

text \<open>
  The status line of a modified, tracked file whose name holds the byte 0xE9, an
  e with acute accent in Latin-1: \<^verbatim>\<open>hg status\<close> prints file names as the bytes they
  are, and so does \<^verbatim>\<open>git status\<close> when \<^verbatim>\<open>core.quotepath\<close> is off.
\<close>

definition latin1_status :: bytes where
  "latin1_status = ''M caf'' @ [CHR 0xE9] @ ''.txt'' @ [LF]"

section \<open>Notions the statements use\<close>

text \<open>The status command each backend runs in \<^verbatim>\<open>assert_nondirty\<close>.\<close>

definition status_command :: "vcs \<Rightarrow> string list" where
  "status_command cls =
     (case cls of
        Git \<Rightarrow> [''git'', ''status'', ''--porcelain'']
      | Mercurial \<Rightarrow> [''hg'', ''status'', ''-mard'']
      | SVN \<Rightarrow> [''svn'', ''status'', ''-q''])"

text \<open>
  The status output reports a change that is not untracked: one of its lines, stripped,
  does not start with the marker \<^verbatim>\<open>??\<close> of an untracked path.
\<close>

definition reports_tracked_change :: "bytes \<Rightarrow> bool" where
  "reports_tracked_change out =
     list_ex (\<lambda>line. \<not> py_startswith (bytes_strip line) ''??'') (py_splitlines out)"

text \<open>The command ran and exited with a code other than 0.\<close>

definition exits_nonzero :: "proc_outcome \<times> filesystem \<Rightarrow> bool" where
  "exits_nonzero result = (case fst result of Exited rc out \<Rightarrow> rc \<noteq> 0 | SpawnFailed e \<Rightarrow> False)"

text \<open>A natural number in decimal, as \<^verbatim>\<open>git describe\<close> prints the distance.\<close>

definition digit_char :: "nat \<Rightarrow> char" where
  "digit_char d = char_of (48 + d)"

fun dec :: "nat \<Rightarrow> string" where
  "dec n = (if n < 10 then [digit_char n] else dec (n div 10) @ [digit_char (n mod 10)])"

declare dec.simps [simp del]

text \<open>
  What \<^verbatim>\<open>git describe --dirty --tags --long\<close> prints for the tag \<^verbatim>\<open>"v" + v\<close>, \<open>n\<close>
  commits after it, at the commit \<open>sha\<close>: tag, distance and the commit id after a
  \<^verbatim>\<open>g\<close>, joined by \<^verbatim>\<open>-\<close>; then \<^verbatim>\<open>-dirty\<close> for a modified working tree; then
  \<open>trail\<close>, the line end.
\<close>

definition describe_string :: "string \<Rightarrow> nat \<Rightarrow> string \<Rightarrow> bool \<Rightarrow> string \<Rightarrow> string" where
  "describe_string v n sha dirty trail =
     ''v'' @ v @ ''-'' @ dec n @ ''-g'' @ sha @ (if dirty then ''-dirty'' else []) @ trail"

definition is_hex :: "char \<Rightarrow> bool" where
  "is_hex c = (c \<in> set ''0123456789abcdefABCDEF'')"

text \<open>
  The URL derivation as the specification words it: the rightmost occurrence of any of
  the markers decides (the longer marker where two start at the same place);
  \<^verbatim>\<open>root\<close> ends just after the marker, \<^verbatim>\<open>base\<close> before the separator in front of
  it.
\<close>

fun rightmost_marker :: "string \<Rightarrow> string list \<Rightarrow> (nat \<times> string) option" where
  "rightmost_marker url [] = None"
| "rightmost_marker url (m # ms) =
     (case py_rindex url m of
        None \<Rightarrow> rightmost_marker url ms
      | Some i \<Rightarrow>
          (case rightmost_marker url ms of
             None \<Rightarrow> Some (i, m)
           | Some (j, m') \<Rightarrow>
               if j < i \<or> (j = i \<and> length m' \<le> length m) then Some (i, m) else Some (j, m')))"

definition rightmost_marker_urls :: "string \<Rightarrow> RepoUrls" where
  "rightmost_marker_urls url =
     (case rightmost_marker url [''branch'', ''branches'', ''trunk''] of
        None \<Rightarrow> \<lparr>base = None, root = None, current = Some url\<rparr>
      | Some (i, m) \<Rightarrow>
          \<lparr>base = Some (take (i - 1) url), root = Some (take (i + length m) url),
           current = Some url\<rparr>)"

text \<open>What \<^verbatim>\<open>svn info\<close> prints in a working copy of the given URL.\<close>

definition svn_info :: "string \<Rightarrow> bytes" where
  "svn_info url = ''Path: .'' @ [LF] @ ''URL: '' @ url @ [LF] @ ''Revision: 7'' @ [LF]"

section \<open>The usability probe\<close>

lemma BaseVCS_is_usable_absent:
  assumes "TEST_USABLE_COMMAND cls = Some argv"
    and "sys argv (environ w) (files w) = (SpawnFailed e, fs)"
    and "e \<in> set [ENOENT, EACCES, ENOTDIR]"
  shows "fst (BaseVCS_is_usable sys cls w) = Inr False"
  using assms
  by (simp add: BaseVCS_is_usable_def subprocess_call_def spawn_def)

lemma SVN_is_usable_propagates:
  assumes "sys [''svn'', ''info''] (environ w) (files w) = (SpawnFailed e, fs)"
  shows "fst (SVN_is_usable sys w) = Inl (OSError e)"
  using assms
  by (simp add: SVN_is_usable_def repo_urls_def current_url_def check_output_def spawn_def)

text \<open>
  Claim C1. When the executable of the backend is absent, \<^verbatim>\<open>is_usable()\<close> is to
  return \<^verbatim>\<open>False\<close> for every backend. On a machine where no executable can be
  started, Git and Mercurial do so, through the handler they inherit from
  \<^verbatim>\<open>BaseVCS\<close>; \<^verbatim>\<open>SVN.is_usable\<close> overrides the method without a handler, and the
  \<^verbatim>\<open>OSError\<close> of \<^verbatim>\<open>svn info\<close> leaves the call as an exception.
\<close>

theorem is_usable_executable_absent:
  "fst (is_usable no_executables Git w) = Inr False \<and>
   fst (is_usable no_executables Mercurial w) = Inr False \<and>
   fst (is_usable no_executables SVN w) = Inl (OSError ENOENT)"
  by (simp add: is_usable_def BaseVCS_is_usable_def TEST_USABLE_COMMAND_def
      subprocess_call_def spawn_def no_executables_def SVN_is_usable_def repo_urls_def
      current_url_def check_output_def)

section \<open>Committing\<close>

lemma py_upper_current_version: "py_upper ''current_version'' = ''CURRENT_VERSION''"
  by code_simp

lemma py_upper_new_version: "py_upper ''new_version'' = ''NEW_VERSION''"
  by code_simp

lemma os_unlink_removes: "files (snd (os_unlink path w)) path = None"
  by (simp add: os_unlink_def)

lemma os_unlink_world:
  "spawned (snd (os_unlink path w)) = spawned w"
  "environ (snd (os_unlink path w)) = environ w"
  "COMMIT_COMMAND (snd (os_unlink path w)) = COMMIT_COMMAND w"
  by (simp_all add: os_unlink_def)

lemma check_output_world:
  "spawned (snd (check_output sys argv env w)) = spawned w @ [(argv, env)]"
  "environ (snd (check_output sys argv env w)) = environ w"
  "COMMIT_COMMAND (snd (check_output sys argv env w)) = COMMIT_COMMAND w"
  by (simp_all add: check_output_def spawn_def split: prod.splits proc_outcome.splits)

lemma commit_env_both:
  assumes "context ''current_version'' = Some cv" and "context ''new_version'' = Some nv"
  shows "commit_env context [''current_version'', ''new_version''] env =
         Inr (env(''BUMPVERSION_CURRENT_VERSION'' \<mapsto> cv, ''BUMPVERSION_NEW_VERSION'' \<mapsto> nv))"
  using assms by (simp add: py_upper_current_version py_upper_new_version)

text \<open>
  Whatever the \<^verbatim>\<open>try\<close> block does, the state the call ends in is the one
  \<^verbatim>\<open>os.unlink\<close> leaves.
\<close>

lemma commit_try_world:
  "snd (commit_try sys tmp cls extra env w1) =
   snd (os_unlink tmp (snd (case COMMIT_COMMAND w1 cls of
                              None \<Rightarrow> (Inl TypeError, w1)
                            | Some template \<Rightarrow>
                                check_output sys (template @ [tmp] @ extra) env w1)))"
proof -
  obtain r w2 where run:
    "(case COMMIT_COMMAND w1 cls of
        None \<Rightarrow> (Inl TypeError, w1)
      | Some template \<Rightarrow> check_output sys (template @ [tmp] @ extra) env w1) = (r, w2)"
    by (rule prod.exhaust)
  obtain u w3 where un: "os_unlink tmp w2 = (u, w3)"
    by (rule prod.exhaust)
  show ?thesis
    by (cases u; cases r) (simp_all add: commit_try_def run un)
qed

lemma commit_try_removes: "files (snd (commit_try sys tmp cls extra env w1)) tmp = None"
  by (simp only: commit_try_world os_unlink_removes)

lemma commit_with_both_keys:
  assumes "context ''current_version'' = Some cv" and "context ''new_version'' = Some nv"
  shows "commit sys tmp cls message context extra_args w =
         commit_try sys tmp cls (case extra_args of None \<Rightarrow> [] | Some xs \<Rightarrow> xs)
           ((environ w)(''HGENCODING'' \<mapsto> ''utf-8'', ''BUMPVERSION_CURRENT_VERSION'' \<mapsto> cv,
                        ''BUMPVERSION_NEW_VERSION'' \<mapsto> nv))
           (NamedTemporaryFile_write tmp message w)"
  by (simp add: commit_def Let_def commit_env_both [OF assms] NamedTemporaryFile_write_def
      del: commit_env.simps)

lemma sample_context_keys:
  "sample_context ''current_version'' = Some ''1.0.0''"
  "sample_context ''new_version'' = Some ''1.0.1''"
  by (simp_all add: sample_context_def)

text \<open>The run the examples below look at: \<^verbatim>\<open>git commit\<close> exits with code 1.\<close>

lemma failing_git_commit:
  "commit (exits_with 1 ''nothing to commit'') ''/tmp/tmpk3x'' Git ''Bump version''
      sample_context None initial_world =
     (Inl (CalledProcessError [''git'', ''commit'', ''-F'', ''/tmp/tmpk3x''] 1 ''nothing to commit''),
      initial_world\<lparr>spawned := [([''git'', ''commit'', ''-F'', ''/tmp/tmpk3x''],
         [''PATH'' \<mapsto> ''/usr/bin'', ''HGENCODING'' \<mapsto> ''utf-8'',
          ''BUMPVERSION_CURRENT_VERSION'' \<mapsto> ''1.0.0'',
          ''BUMPVERSION_NEW_VERSION'' \<mapsto> ''1.0.1''])]\<rparr>)"
  by (simp add: commit_with_both_keys [OF sample_context_keys]
      commit_try_def initial_world_def class_COMMIT_COMMAND_def NamedTemporaryFile_write_def
      check_output_def spawn_def exits_with_def os_unlink_def)

text \<open>
  Claim C2. For every backend, every message and every context that holds both keys,
  the message file \<open>tmp\<close> that \<^verbatim>\<open>commit\<close> wrote does not exist when the call is
  over, whatever the commit command did: exit with 0, exit with another code (the call
  then raises), or fail to start.
\<close>

theorem commit_deletes_message_file:
  assumes "context ''current_version'' = Some cv" and "context ''new_version'' = Some nv"
  shows "files (snd (commit sys tmp cls message context extra_args w)) tmp = None"
  by (simp only: commit_with_both_keys [OF assms] commit_try_removes)

theorem commit_deletes_message_file_witness:
  "sample_context ''current_version'' = Some ''1.0.0'' \<and>
   sample_context ''new_version'' = Some ''1.0.1'' \<and>
   fst (commit (exits_with 1 ''nothing to commit'') ''/tmp/tmpk3x'' Git ''Bump version''
      sample_context None initial_world) =
     Inl (CalledProcessError [''git'', ''commit'', ''-F'', ''/tmp/tmpk3x''] 1 ''nothing to commit'') \<and>
   files (snd (commit (exits_with 1 ''nothing to commit'') ''/tmp/tmpk3x'' Git ''Bump version''
      sample_context None initial_world)) ''/tmp/tmpk3x'' = None"
proof -
  have raised: "fst (commit (exits_with 1 ''nothing to commit'') ''/tmp/tmpk3x'' Git ''Bump version''
      sample_context None initial_world) =
     Inl (CalledProcessError [''git'', ''commit'', ''-F'', ''/tmp/tmpk3x''] 1 ''nothing to commit'')"
    by (simp only: failing_git_commit fst_conv)
  show ?thesis
    by (intro conjI sample_context_keys raised
        commit_deletes_message_file [OF sample_context_keys])
qed

text \<open>
  Claim C8, as the code has it. For every backend whose command template is set and
  every context that holds both keys, \<^verbatim>\<open>commit\<close> starts exactly one child; its
  environment is the caller's with \<^verbatim>\<open>HGENCODING\<close> set to \<^verbatim>\<open>utf-8\<close> and the two
  \<^verbatim>\<open>BUMPVERSION_\<close> variables set from the context, and the caller's own environment is
  the same after the call. \<^verbatim>\<open>HGENCODING\<close> is set for every backend, not for one.
\<close>

theorem commit_child_environment:
  assumes "context ''current_version'' = Some cv" and "context ''new_version'' = Some nv"
    and "COMMIT_COMMAND w cls = Some template"
  shows "spawned (snd (commit sys tmp cls message context extra_args w)) =
           spawned w @
             [(template @ [tmp] @ (case extra_args of None \<Rightarrow> [] | Some xs \<Rightarrow> xs),
               (environ w)(''HGENCODING'' \<mapsto> ''utf-8'', ''BUMPVERSION_CURRENT_VERSION'' \<mapsto> cv,
                           ''BUMPVERSION_NEW_VERSION'' \<mapsto> nv))] \<and>
         environ (snd (commit sys tmp cls message context extra_args w)) = environ w"
  using assms(3)
  by (simp add: commit_with_both_keys [OF assms(1,2)] commit_try_world check_output_world
      os_unlink_world NamedTemporaryFile_write_def)

theorem commit_child_environment_witness:
  "sample_context ''current_version'' = Some ''1.0.0'' \<and>
   sample_context ''new_version'' = Some ''1.0.1'' \<and>
   COMMIT_COMMAND initial_world Mercurial = Some [''hg'', ''commit'', ''--logfile''] \<and>
   spawned (snd (commit (exits_with 0 []) ''/tmp/tmpk3x'' Mercurial ''Bump version''
      sample_context (Some [''setup.py'']) initial_world)) =
     [([''hg'', ''commit'', ''--logfile'', ''/tmp/tmpk3x'', ''setup.py''],
       [''PATH'' \<mapsto> ''/usr/bin'', ''HGENCODING'' \<mapsto> ''utf-8'',
        ''BUMPVERSION_CURRENT_VERSION'' \<mapsto> ''1.0.0'',
        ''BUMPVERSION_NEW_VERSION'' \<mapsto> ''1.0.1''])] \<and>
   environ (snd (commit (exits_with 0 []) ''/tmp/tmpk3x'' Mercurial ''Bump version''
      sample_context (Some [''setup.py'']) initial_world)) = [''PATH'' \<mapsto> ''/usr/bin'']"
proof -
  have template: "COMMIT_COMMAND initial_world Mercurial = Some [''hg'', ''commit'', ''--logfile'']"
    by (simp add: initial_world_def class_COMMIT_COMMAND_def)
  have "spawned initial_world = []" and "environ initial_world = [''PATH'' \<mapsto> ''/usr/bin'']"
    by (simp_all add: initial_world_def)
  then show ?thesis
    using commit_child_environment [OF sample_context_keys template,
        of "exits_with 0 []" "''/tmp/tmpk3x''" "''Bump version''" "Some [''setup.py'']"]
      sample_context_keys template
    by simp
qed

text \<open>
  Claim C8, as stated, says that the forced UTF-8 variable is added for exactly one
  backend, the Mercurial one. The child that Git's \<^verbatim>\<open>commit\<close> starts has it too.
\<close>

theorem HGENCODING_in_git_commit:
  "map (\<lambda>child. snd child ''HGENCODING'')
     (spawned (snd (commit (exits_with 1 ''nothing to commit'') ''/tmp/tmpk3x'' Git
        ''Bump version'' sample_context None initial_world))) = [Some ''utf-8'']"
  by (simp add: failing_git_commit)

text \<open>
  Claim C10. When the context lacks \<^verbatim>\<open>current_version\<close> or \<^verbatim>\<open>new_version\<close>, the
  call raises \<^verbatim>\<open>KeyError\<close>, no child has been started, and the message file, written
  before the lookup, still exists with the message in it.
\<close>

theorem commit_missing_key:
  assumes "context ''current_version'' = None \<or> context ''new_version'' = None"
  shows "(\<exists>key. fst (commit sys tmp cls message context extra_args w) = Inl (KeyError key)) \<and>
         spawned (snd (commit sys tmp cls message context extra_args w)) = spawned w \<and>
         files (snd (commit sys tmp cls message context extra_args w)) tmp = Some message"
  using assms
  by (auto simp add: commit_def Let_def NamedTemporaryFile_write_def split: option.splits)

theorem commit_missing_key_witness:
  "(short_context ''current_version'' = None \<or> short_context ''new_version'' = None) \<and>
   fst (commit (exits_with 0 []) ''/tmp/tmpk3x'' SVN ''Bump version'' short_context None
      initial_world) = Inl (KeyError ''new_version'') \<and>
   spawned (snd (commit (exits_with 0 []) ''/tmp/tmpk3x'' SVN ''Bump version'' short_context None
      initial_world)) = [] \<and>
   files (snd (commit (exits_with 0 []) ''/tmp/tmpk3x'' SVN ''Bump version'' short_context None
      initial_world)) ''/tmp/tmpk3x'' = Some ''Bump version''"
proof -
  have missing: "short_context ''current_version'' = None \<or> short_context ''new_version'' = None"
    by (simp add: short_context_def)
  have raised: "fst (commit (exits_with 0 []) ''/tmp/tmpk3x'' SVN ''Bump version'' short_context
      None initial_world) = Inl (KeyError ''new_version'')"
    by (simp add: commit_def short_context_def)
  have "spawned initial_world = []"
    by (simp add: initial_world_def)
  then show ?thesis
    using commit_missing_key [OF missing, of "exits_with 0 []" "''/tmp/tmpk3x''" SVN
        "''Bump version''" None initial_world] missing raised
    by simp
qed

section \<open>Staging a path\<close>

lemma Git_add_path_runs:
  assumes "sys [''git'', ''add'', ''--update'', path] (environ w) (files w) = (Exited 0 out, fs)"
  shows "fst (add_path sys Git path w) = Inr () \<and>
         spawned (snd (add_path sys Git path w)) =
           spawned w @ [([''git'', ''add'', ''--update'', path], environ w)]"
  using assms by (simp add: add_path_def Git_add_path_def check_output_def spawn_def)

text \<open>
  Claim C9. The statement of \<^verbatim>\<open>SVN.add_path\<close> is written to splice the path into the
  command template, but it names the template without \<^verbatim>\<open>cls.\<close>: for every path the
  call raises \<^verbatim>\<open>UnboundLocalError\<close> and leaves the state as it was, so no template,
  class-level or other, is changed and no child is started. Mercurial's method, a
  no-op, returns.
\<close>

theorem add_path_SVN_raises:
  "add_path sys SVN path w = (Inl (UnboundLocalError ''_COMMIT_COMMAND''), w) \<and>
   add_path sys Mercurial path w = (Inr (), w)"
  by (simp add: add_path_def SVN_add_path_def Mercurial_add_path_def)

section \<open>The state of the working tree\<close>

lemma status_lines_nonempty_iff: "status_lines out \<noteq> [] \<longleftrightarrow> reports_tracked_change out"
  by (simp add: status_lines_def reports_tracked_change_def filter_empty_conv list_ex_iff)

text \<open>
  Where the lines that are not untracked decode, Git's and Mercurial's check raises
  \<^verbatim>\<open>WorkingDirectoryIsDirtyException\<close> if and only if there is such a line, and
  returns otherwise.
\<close>

lemma assert_nondirty_decodable:
  assumes "cls = Git \<or> cls = Mercurial"
    and "sys (status_command cls) (environ w) (files w) = (Exited 0 out, fs)"
    and "py_decode (py_join [LF] (status_lines out)) = Some details"
  shows "(reports_tracked_change out \<longrightarrow>
            fst (assert_nondirty sys cls w) =
              Inl (WorkingDirectoryIsDirtyException
                     ((if cls = Git then ''Git'' else ''Mercurial'') @
                      '' working directory is not clean:'' @ [LF] @ details))) \<and>
         (\<not> reports_tracked_change out \<longrightarrow> fst (assert_nondirty sys cls w) = Inr ())"
  using assms
  by (cases cls)
    (simp_all add: assert_nondirty_def Git_assert_nondirty_def Mercurial_assert_nondirty_def
      status_command_def check_output_def spawn_def Let_def status_lines_nonempty_iff)

text \<open>
  SVN's check decodes nothing and looks at no line: it raises if and only if
  \<^verbatim>\<open>svn status -q\<close>, which leaves untracked paths out by itself, printed anything.
\<close>

lemma SVN_assert_nondirty_iff:
  assumes "sys [''svn'', ''status'', ''-q''] (environ w) (files w) = (Exited 0 out, fs)"
  shows "(out \<noteq> [] \<longrightarrow>
            fst (assert_nondirty sys SVN w) =
              Inl (WorkingDirectoryIsDirtyException
                     (''SVN working directory is not clean:'' @ [LF] @ bytes_repr out))) \<and>
         (out = [] \<longrightarrow> fst (assert_nondirty sys SVN w) = Inr ())"
  using assms
  by (simp add: assert_nondirty_def SVN_assert_nondirty_def check_output_def spawn_def)

lemma status_lines_dirty_status: "status_lines dirty_status = [''M setup.py'']"
  by code_simp

lemma decode_dirty_line: "py_decode ''M setup.py'' = Some ''M setup.py''"
  by code_simp

lemma status_lines_untracked_status: "status_lines untracked_status = []"
  by code_simp

text \<open>A modified file makes the check raise; an untracked file alone does not.\<close>

lemma git_dirty_run:
  "fst (assert_nondirty (exits_with 0 dirty_status) Git initial_world) =
     Inl (WorkingDirectoryIsDirtyException
            (''Git working directory is not clean:'' @ [LF] @ ''M setup.py''))"
  by (simp add: assert_nondirty_def Git_assert_nondirty_def check_output_def spawn_def
      exits_with_def status_lines_dirty_status decode_dirty_line)

lemma untracked_only_run:
  "fst (assert_nondirty (exits_with 0 untracked_status) Git initial_world) = Inr ()"
  "fst (assert_nondirty (exits_with 0 untracked_status) Mercurial initial_world) = Inr ()"
  by (simp_all add: assert_nondirty_def Git_assert_nondirty_def Mercurial_assert_nondirty_def
      check_output_def spawn_def exits_with_def status_lines_untracked_status)

lemma latin1_status_reports: "reports_tracked_change latin1_status"
  by code_simp

lemma status_lines_latin1_status:
  "status_lines latin1_status = [''M caf'' @ [CHR 0xE9] @ ''.txt'']"
  by code_simp

lemma decode_latin1_line: "py_decode (''M caf'' @ [CHR 0xE9] @ ''.txt'') = None"
  by code_simp

text \<open>
  Claim C3. \<^verbatim>\<open>assert_nondirty()\<close> is to raise \<^verbatim>\<open>WorkingDirectoryIsDirtyException\<close>
  whenever the status output reports a changed path that is not untracked. The output
  \<open>latin1_status\<close> reports one, a modified file; Git's and Mercurial's check raise
  \<^verbatim>\<open>UnicodeDecodeError\<close> on it instead, from the \<^verbatim>\<open>decode()\<close> that builds the
  message of the exception.
\<close>

theorem assert_nondirty_undecodable_path:
  "reports_tracked_change latin1_status \<and>
   fst (assert_nondirty (exits_with 0 latin1_status) Git initial_world) =
     Inl UnicodeDecodeError \<and>
   fst (assert_nondirty (exits_with 0 latin1_status) Mercurial initial_world) =
     Inl UnicodeDecodeError"
  using status_lines_latin1_status decode_latin1_line
  by (simp add: assert_nondirty_def Git_assert_nondirty_def Mercurial_assert_nondirty_def
      check_output_def spawn_def exits_with_def latin1_status_reports)

section \<open>Tag information\<close>

text \<open>
  Claim C7. \<^verbatim>\<open>latest_tag_info\<close> of Mercurial and of SVN returns the empty dictionary,
  and so does Git's when \<^verbatim>\<open>git update-index\<close> exits with a code other than 0, or when
  it exits with 0 and \<^verbatim>\<open>git describe\<close> then exits with a code other than 0 (no
  matching tag): the exception is not raised.
\<close>

theorem latest_tag_info_empty:
  "fst (latest_tag_info sys Mercurial w) = Inr Map.empty \<and>
   fst (latest_tag_info sys SVN w) = Inr Map.empty \<and>
   (exits_nonzero (sys [''git'', ''update-index'', ''--refresh''] (environ w) (files w)) \<longrightarrow>
      fst (latest_tag_info sys Git w) = Inr Map.empty) \<and>
   (\<forall>refreshed fs.
      sys [''git'', ''update-index'', ''--refresh''] (environ w) (files w) = (Exited 0 refreshed, fs) \<and>
      exits_nonzero (sys describe_command (environ w) fs) \<longrightarrow>
      fst (latest_tag_info sys Git w) = Inr Map.empty)"
  by (auto simp add: latest_tag_info_def Mercurial_latest_tag_info_def SVN_latest_tag_info_def
      Git_latest_tag_info_def check_output_def spawn_def exits_nonzero_def
      is_CalledProcessError_def split: prod.splits proc_outcome.splits)

theorem latest_tag_info_empty_witness:
  "no_tags [''git'', ''update-index'', ''--refresh''] (environ initial_world) (files initial_world) =
     (Exited 0 [], Map.empty) \<and>
   exits_nonzero (no_tags describe_command (environ initial_world) Map.empty) \<and>
   fst (latest_tag_info no_tags Git initial_world) = Inr Map.empty"
proof -
  have refreshed: "no_tags [''git'', ''update-index'', ''--refresh''] (environ initial_world)
      (files initial_world) = (Exited 0 [], Map.empty)"
    by (simp add: no_tags_def describe_command_def initial_world_def)
  have failed: "exits_nonzero (no_tags describe_command (environ initial_world) Map.empty)"
    by (simp add: no_tags_def exits_nonzero_def)
  show ?thesis
    using latest_tag_info_empty [of no_tags initial_world] refreshed failed by blast
qed

subsection \<open>Splitting, stripping and reading numbers\<close>

lemma py_split_not_Nil: "py_split sep s \<noteq> []"
  by (induction s) (auto split: list.splits)

lemma py_split_no_sep: "sep \<notin> set a \<Longrightarrow> py_split sep a = [a]"
  by (induction a) auto

lemma py_split_append: "sep \<notin> set a \<Longrightarrow> py_split sep (a @ sep # rest) = a # py_split sep rest"
  by (induction a) auto

lemma strip_with_id:
  assumes "\<forall>c\<in>set s. \<not> sp c"
  shows "strip_with sp s = s"
proof -
  have "dropWhile sp s = s"
    using assms by (cases s) auto
  moreover have "dropWhile sp (rev s) = rev s"
    using assms by (cases "rev s") (auto simp: rev_eq_Cons_iff)
  ultimately show ?thesis by (simp add: strip_with_def)
qed

lemma strip_with_trail:
  assumes "\<forall>c\<in>set s. \<not> sp c" and "\<forall>c\<in>set t. sp c"
  shows "strip_with sp (s @ t) = s"
proof (cases s)
  case Nil
  have none: "dropWhile sp t = []"
    using assms(2) by (induction t) auto
  show ?thesis
    by (simp add: strip_with_def Nil none)
next
  case (Cons a s')
  then have front: "dropWhile sp (s @ t) = s @ t"
    using assms(1) by simp
  have "dropWhile sp (rev t @ rev s) = dropWhile sp (rev s)"
    by (rule dropWhile_append2) (use assms(2) in simp)
  moreover have "dropWhile sp (rev s) = rev s"
    using assms(1) by (cases "rev s") (auto simp: rev_eq_Cons_iff)
  ultimately show ?thesis
    by (simp add: strip_with_def front)
qed

lemma strip_with_head:
  assumes "\<not> sp c"
  shows "\<exists>r. strip_with sp (c # s) = c # r"
proof -
  have "dropWhile sp (rev s @ [c]) = dropWhile sp (rev s) @ [c]"
    using assms by (simp add: dropWhile_append)
  then show ?thesis
    using assms by (simp add: strip_with_def)
qed

lemma py_lstrip_id: "s = [] \<or> hd s \<notin> set chars \<Longrightarrow> py_lstrip chars s = s"
  by (cases s) (auto simp: py_lstrip_def)

lemma is_digit_digit_char: "d < 10 \<Longrightarrow> is_digit (digit_char d)"
  by (simp add: is_digit_def digit_char_def)

lemma digit_val_digit_char: "d < 10 \<Longrightarrow> digit_val (digit_char d) = int d"
  by (simp add: digit_val_def digit_char_def)

lemma dec_digits: "\<forall>c\<in>set (dec n). is_digit c"
proof (induction n rule: dec.induct)
  case (1 n)
  then show ?case
    by (subst dec.simps) (auto simp: is_digit_digit_char)
qed

lemma dec_not_Nil: "dec n \<noteq> []"
  by (subst dec.simps) simp

lemma digits_ok_all:
  "s \<noteq> [] \<Longrightarrow> \<forall>c\<in>set s. is_digit c \<Longrightarrow> digits_ok s"
proof (induction s rule: digits_ok.induct)
  case 1
  then show ?case by simp
next
  case (2 c)
  then show ?case by simp
next
  case (3 c d cs)
  have "d \<noteq> CHR ''_''"
    using 3(4) by (auto simp: is_digit_def)
  with 3 show ?case by simp
qed

lemma is_digit_not_underscore: "is_digit c \<Longrightarrow> c \<noteq> CHR ''_''"
  by (auto simp: is_digit_def)

lemma digits_val_snoc:
  "is_digit c \<Longrightarrow> digits_val (s @ [c]) = 10 * digits_val s + digit_val c"
  by (simp add: digits_val_def is_digit_not_underscore)

lemma digits_val_single: "is_digit c \<Longrightarrow> digits_val [c] = digit_val c"
  by (simp add: digits_val_def is_digit_not_underscore)

lemma digits_val_dec: "digits_val (dec n) = int n"
proof (induction n rule: dec.induct)
  case (1 n)
  show ?case
  proof (cases "n < 10")
    case True
    then show ?thesis
      by (subst dec.simps) (simp add: digits_val_single is_digit_digit_char digit_val_digit_char)
  next
    case False
    then have "digits_val (dec (n div 10)) = int (n div 10)"
      using 1 by simp
    then have "digits_val (dec (n div 10) @ [digit_char (n mod 10)]) = int n"
      by (simp add: digits_val_snoc is_digit_digit_char digit_val_digit_char zdiv_int zmod_int)
    with False show ?thesis
      by (subst dec.simps) simp
  qed
qed

lemma is_digit_not_space: "is_digit c \<Longrightarrow> \<not> str_isspace c"
  by (auto simp: is_digit_def str_isspace_def)

lemma is_digit_not_sign: "is_digit c \<Longrightarrow> c \<noteq> CHR ''-'' \<and> c \<noteq> CHR ''+''"
  by (auto simp: is_digit_def)

lemma py_int_digits:
  assumes "s \<noteq> []" and "\<forall>c\<in>set s. is_digit c"
  shows "py_int s = Some (digits_val s)"
proof -
  have strip: "str_strip s = s"
    using assms(2) by (simp add: str_strip_def strip_with_id is_digit_not_space)
  have "is_digit (hd s)"
    using assms by (cases s) auto
  then have "hd s \<noteq> CHR ''-''" and "hd s \<noteq> CHR ''+''"
    using is_digit_not_sign by blast+
  then show ?thesis
    using assms by (simp add: py_int_def strip Let_def digits_ok_all)
qed

lemma py_int_dec: "py_int (dec n) = Some (int n)"
  by (simp add: py_int_digits dec_not_Nil dec_digits digits_val_dec)

lemma dec_no_dash: "CHR ''-'' \<notin> set (dec n)"
  using dec_digits is_digit_not_sign by blast


lemma space_not_dash: "str_isspace c \<Longrightarrow> c \<noteq> CHR ''-''"
  by (auto simp: str_isspace_def)

lemma split_describe_dirty:
  assumes "CHR ''-'' \<notin> set v" and "CHR ''-'' \<notin> set sha" and "\<forall>c\<in>set trail. str_isspace c"
  shows "py_split (CHR ''-'') (describe_string v n sha True trail) =
         [''v'' @ v, dec n, ''g'' @ sha, ''dirty'' @ trail]"
proof -
  have trail: "CHR ''-'' \<notin> set (''dirty'' @ trail)"
    using assms(3) space_not_dash by auto
  have shape: "describe_string v n sha True trail =
      (''v'' @ v) @ CHR ''-'' # (dec n @ CHR ''-'' # ((''g'' @ sha) @ CHR ''-'' # (''dirty'' @ trail)))"
    by (simp add: describe_string_def)
  have v: "CHR ''-'' \<notin> set (''v'' @ v)" and g: "CHR ''-'' \<notin> set (''g'' @ sha)"
    using assms(1,2) by simp_all
  show ?thesis
    unfolding shape
    by (simp only: py_split_append [OF v] py_split_append [OF dec_no_dash]
        py_split_append [OF g] py_split_no_sep [OF trail])
qed

lemma split_describe_clean:
  assumes "CHR ''-'' \<notin> set v" and "CHR ''-'' \<notin> set sha" and "\<forall>c\<in>set trail. str_isspace c"
  shows "py_split (CHR ''-'') (describe_string v n sha False trail) =
         [''v'' @ v, dec n, ''g'' @ sha @ trail]"
proof -
  have last: "CHR ''-'' \<notin> set (''g'' @ sha @ trail)"
    using assms(2,3) space_not_dash by auto
  have shape: "describe_string v n sha False trail =
      (''v'' @ v) @ CHR ''-'' # (dec n @ CHR ''-'' # (''g'' @ sha @ trail))"
    by (simp add: describe_string_def)
  have v: "CHR ''-'' \<notin> set (''v'' @ v)"
    using assms(1) by simp
  show ?thesis
    unfolding shape
    by (simp only: py_split_append [OF v] py_split_append [OF dec_no_dash]
        py_split_no_sep [OF last])
qed

lemma str_strip_dirty:
  assumes "\<forall>c\<in>set trail. str_isspace c"
  shows "str_strip (''dirty'' @ trail) = ''dirty''"
  unfolding str_strip_def
  by (rule strip_with_trail) (use assms in \<open>simp_all add: str_isspace_def\<close>)

lemma str_strip_commit_token: "str_strip (''g'' @ rest) \<noteq> ''dirty''"
proof -
  have "\<not> str_isspace (CHR ''g'')"
    by (simp add: str_isspace_def)
  then obtain r where "strip_with str_isspace (CHR ''g'' # rest) = CHR ''g'' # r"
    using strip_with_head by blast
  then show ?thesis
    by (simp add: str_strip_def)
qed

lemma parse_describe_dirty:
  assumes "CHR ''-'' \<notin> set v" and "CHR ''-'' \<notin> set sha" and "\<forall>c\<in>set trail. str_isspace c"
  shows "parse_describe (py_split (CHR ''-'') (describe_string v n sha True trail)) =
         Inr [''dirty'' \<mapsto> PBool True,
              ''commit_sha'' \<mapsto> PStr (py_lstrip ''g'' (''g'' @ sha)),
              ''distance_to_latest_tag'' \<mapsto> PInt (int n),
              ''current_version'' \<mapsto> PStr (py_lstrip ''v'' (''v'' @ v))]"
  by (simp add: split_describe_dirty [OF assms] parse_describe_def
      str_strip_dirty [OF assms(3), simplified] py_int_dec Let_def)

lemma parse_describe_clean:
  assumes "CHR ''-'' \<notin> set v" and "CHR ''-'' \<notin> set sha" and "\<forall>c\<in>set trail. str_isspace c"
  shows "parse_describe (py_split (CHR ''-'') (describe_string v n sha False trail)) =
         Inr [''commit_sha'' \<mapsto> PStr (py_lstrip ''g'' (''g'' @ sha @ trail)),
              ''distance_to_latest_tag'' \<mapsto> PInt (int n),
              ''current_version'' \<mapsto> PStr (py_lstrip ''v'' (''v'' @ v))]"
  by (simp add: split_describe_clean [OF assms] parse_describe_def py_int_dec Let_def
      str_strip_commit_token [of "sha @ trail", simplified])

lemma Git_latest_tag_info_parses:
  assumes "sys [''git'', ''update-index'', ''--refresh''] (environ w) (files w) = (Exited 0 refreshed, fs)"
    and "sys describe_command (environ w) fs = (Exited 0 out, fs')"
  shows "fst (latest_tag_info sys Git w) = parse_describe (py_split (CHR ''-'') out)"
  using assms
  by (simp add: latest_tag_info_def Git_latest_tag_info_def check_output_def spawn_def)

lemma py_lstrip_v: "\<not> py_startswith v ''v'' \<Longrightarrow> py_lstrip ''v'' (''v'' @ v) = v"
  by (cases v) (auto simp: py_lstrip_def py_startswith_def)

lemma not_hex: "\<not> is_hex (CHR ''g'')" "\<not> is_hex (CHR ''-'')"
  by (simp_all add: is_hex_def)

lemma py_lstrip_g_hex:
  assumes "\<forall>c\<in>set sha. is_hex c"
  shows "py_lstrip ''g'' (''g'' @ sha) = sha"
proof (cases sha)
  case Nil
  then show ?thesis
    by (simp add: py_lstrip_def)
next
  case (Cons c rest)
  then have "is_hex c"
    using assms by simp
  then have "c \<noteq> CHR ''g''"
    using not_hex(1) by blast
  then show ?thesis
    using Cons by (simp add: py_lstrip_def)
qed

lemma hex_no_dash: "\<forall>c\<in>set sha. is_hex c \<Longrightarrow> CHR ''-'' \<notin> set sha"
  using not_hex(2) by blast

lemma digit_char_0: "digit_char 0 = CHR ''0''"
  by code_simp

lemma dec_0: "dec 0 = ''0''"
  by (subst dec.simps) (simp add: digit_char_0)

text \<open>
  Claim C4. When \<^verbatim>\<open>git describe\<close> prints \<^verbatim>\<open>v1.2.3-0-g<sha>-dirty\<close> for a
  hexadecimal \<open>sha\<close>, with or without whitespace such as a line feed after it,
  \<^verbatim>\<open>latest_tag_info\<close> returns the dictionary with \<^verbatim>\<open>dirty\<close> true,
  \<^verbatim>\<open>commit_sha\<close> the \<open>sha\<close>, \<^verbatim>\<open>distance_to_latest_tag\<close> 0 and
  \<^verbatim>\<open>current_version\<close> \<^verbatim>\<open>1.2.3\<close>.
\<close>

theorem latest_tag_info_dirty_example:
  assumes "\<forall>c\<in>set sha. is_hex c" and "\<forall>c\<in>set trail. str_isspace c"
    and "sys [''git'', ''update-index'', ''--refresh''] (environ w) (files w) = (Exited 0 refreshed, fs)"
    and "sys describe_command (environ w) fs =
           (Exited 0 (''v1.2.3-0-g'' @ sha @ ''-dirty'' @ trail), fs')"
  shows "fst (latest_tag_info sys Git w) =
         Inr [''dirty'' \<mapsto> PBool True, ''commit_sha'' \<mapsto> PStr sha,
              ''distance_to_latest_tag'' \<mapsto> PInt 0, ''current_version'' \<mapsto> PStr ''1.2.3'']"
proof -
  have out: "''v1.2.3-0-g'' @ sha @ ''-dirty'' @ trail = describe_string ''1.2.3'' 0 sha True trail"
    by (simp add: describe_string_def dec_0)
  have v: "CHR ''-'' \<notin> set ''1.2.3''" and startv: "\<not> py_startswith ''1.2.3'' ''v''"
    by (simp_all add: py_startswith_def)
  have "parse_describe (py_split (CHR ''-'') (describe_string ''1.2.3'' 0 sha True trail)) =
         Inr [''dirty'' \<mapsto> PBool True,
              ''commit_sha'' \<mapsto> PStr (py_lstrip ''g'' (''g'' @ sha)),
              ''distance_to_latest_tag'' \<mapsto> PInt (int 0),
              ''current_version'' \<mapsto> PStr (py_lstrip ''v'' (''v'' @ ''1.2.3''))]"
    by (rule parse_describe_dirty [OF v hex_no_dash [OF assms(1)] assms(2)])
  then show ?thesis
    by (simp only: Git_latest_tag_info_parses [where sys = sys and w = w, OF assms(3,4)] out
        py_lstrip_g_hex [OF assms(1)] py_lstrip_v [OF startv] int_ops)
qed

text \<open>The string of the claim, and what \<^verbatim>\<open>git\<close> prints: the same with a line feed.\<close>

theorem latest_tag_info_dirty_example_witness:
  "fst (latest_tag_info (exits_with 0 ''v1.2.3-0-gabcdef0123-dirty'') Git initial_world) =
     Inr [''dirty'' \<mapsto> PBool True, ''commit_sha'' \<mapsto> PStr ''abcdef0123'',
          ''distance_to_latest_tag'' \<mapsto> PInt 0, ''current_version'' \<mapsto> PStr ''1.2.3''] \<and>
   fst (latest_tag_info (exits_with 0 (''v1.2.3-0-gabcdef0123-dirty'' @ [LF])) Git initial_world) =
     Inr [''dirty'' \<mapsto> PBool True, ''commit_sha'' \<mapsto> PStr ''abcdef0123'',
          ''distance_to_latest_tag'' \<mapsto> PInt 0, ''current_version'' \<mapsto> PStr ''1.2.3'']"
proof -
  have hex: "\<forall>c\<in>set ''abcdef0123''. is_hex c"
    by (simp add: is_hex_def)
  have none: "\<forall>c\<in>set []. str_isspace c" and lf: "\<forall>c\<in>set [LF]. str_isspace c"
    by (simp_all add: str_isspace_def)
  have run: "exits_with 0 out argv (environ initial_world) (files initial_world) =
      (Exited 0 out, files initial_world)" for out argv
    by (simp add: exits_with_def)
  have bare: "exits_with 0 ''v1.2.3-0-gabcdef0123-dirty'' describe_command
      (environ initial_world) (files initial_world) =
      (Exited 0 (''v1.2.3-0-g'' @ ''abcdef0123'' @ ''-dirty'' @ []), files initial_world)"
    and line: "exits_with 0 (''v1.2.3-0-gabcdef0123-dirty'' @ [LF]) describe_command
      (environ initial_world) (files initial_world) =
      (Exited 0 (''v1.2.3-0-g'' @ ''abcdef0123'' @ ''-dirty'' @ [LF]), files initial_world)"
    by (simp_all add: exits_with_def)
  show ?thesis
    by (intro conjI
        latest_tag_info_dirty_example
          [where sys = "exits_with 0 ''v1.2.3-0-gabcdef0123-dirty''", OF hex none run bare]
        latest_tag_info_dirty_example
          [where sys = "exits_with 0 (''v1.2.3-0-gabcdef0123-dirty'' @ [LF])", OF hex lf run line])
qed

text \<open>
  The round trip where it holds: for every version \<open>v\<close> that holds no \<^verbatim>\<open>-\<close> and does
  not start with \<^verbatim>\<open>v\<close>, the describe string of the tag \<^verbatim>\<open>"v" + v\<close> (any distance,
  any commit id without \<^verbatim>\<open>-\<close>, dirty or not, any whitespace at the end) is parsed
  back to \<^verbatim>\<open>current_version\<close> \<open>v\<close>.
\<close>

lemma current_version_roundtrip:
  assumes "CHR ''-'' \<notin> set v" and "\<not> py_startswith v ''v''"
    and "CHR ''-'' \<notin> set sha" and "\<forall>c\<in>set trail. str_isspace c"
    and "sys [''git'', ''update-index'', ''--refresh''] (environ w) (files w) = (Exited 0 refreshed, fs)"
    and "sys describe_command (environ w) fs = (Exited 0 (describe_string v n sha dirty trail), fs')"
  shows "\<exists>info. fst (latest_tag_info sys Git w) = Inr info \<and>
                info ''current_version'' = Some (PStr v)"
proof -
  have "\<exists>info. parse_describe (py_split (CHR ''-'') (describe_string v n sha dirty trail)) = Inr info
          \<and> info ''current_version'' = Some (PStr v)"
    by (cases dirty)
      (simp_all add: parse_describe_dirty [OF assms(1,3,4)] parse_describe_clean [OF assms(1,3,4)]
        py_lstrip_v [OF assms(2), simplified])
  then show ?thesis
    by (simp only: Git_latest_tag_info_parses [where sys = sys and w = w, OF assms(5,6)])
qed


lemma describe_string_example:
  "describe_string ''1.2.3'' 14 ''abc'' False [LF] = ''v1.2.3-14-gabc'' @ [LF]"
  by code_simp

lemma current_version_roundtrip_example:
  "describe_string ''1.2.3'' 14 ''abc'' False [LF] = ''v1.2.3-14-gabc'' @ [LF] \<and>
   (\<exists>info. fst (latest_tag_info (exits_with 0 (describe_string ''1.2.3'' 14 ''abc'' False [LF]))
               Git initial_world) = Inr info \<and>
           info ''current_version'' = Some (PStr ''1.2.3''))"
proof -
  have v: "CHR ''-'' \<notin> set ''1.2.3''" and startv: "\<not> py_startswith ''1.2.3'' ''v''"
    and sha: "CHR ''-'' \<notin> set ''abc''" and trail: "\<forall>c\<in>set [LF]. str_isspace c"
    by (simp_all add: py_startswith_def str_isspace_def)
  have refreshed: "exits_with 0 (describe_string ''1.2.3'' 14 ''abc'' False [LF])
      [''git'', ''update-index'', ''--refresh''] (environ initial_world) (files initial_world) =
      (Exited 0 (describe_string ''1.2.3'' 14 ''abc'' False [LF]), files initial_world)"
    and described: "exits_with 0 (describe_string ''1.2.3'' 14 ''abc'' False [LF]) describe_command
      (environ initial_world) (files initial_world) =
      (Exited 0 (describe_string ''1.2.3'' 14 ''abc'' False [LF]), files initial_world)"
    by (simp_all add: exits_with_def)
  show ?thesis
    by (intro conjI describe_string_example
        current_version_roundtrip
          [where sys = "exits_with 0 (describe_string ''1.2.3'' 14 ''abc'' False [LF])",
            OF v startv sha trail refreshed described])
qed

text \<open>
  Claim C5. The round trip is to recover every version without \<^verbatim>\<open>-\<close>. The version
  \<^verbatim>\<open>v1\<close> has none; its tag is \<^verbatim>\<open>vv1\<close>, and \<^verbatim>\<open>lstrip("v")\<close>, written to remove
  the prefix of the tag, removes every leading \<^verbatim>\<open>v\<close>: the version that comes back is
  \<^verbatim>\<open>1\<close>.
\<close>

theorem current_version_leading_v_lost:
  "CHR ''-'' \<notin> set ''v1'' \<and>
   (\<exists>info. fst (latest_tag_info (exits_with 0 (describe_string ''v1'' 0 ''abc'' False [LF]))
               Git initial_world) = Inr info \<and>
           info ''current_version'' = Some (PStr ''1'') \<and>
           info ''current_version'' \<noteq> Some (PStr ''v1''))"
proof -
  have v: "CHR ''-'' \<notin> set ''v1''"
    and sha: "CHR ''-'' \<notin> set ''abc''" and trail: "\<forall>c\<in>set [LF]. str_isspace c"
    by (simp_all add: str_isspace_def)
  have run: "fst (latest_tag_info (exits_with 0 (describe_string ''v1'' 0 ''abc'' False [LF]))
               Git initial_world) =
             parse_describe (py_split (CHR ''-'') (describe_string ''v1'' 0 ''abc'' False [LF]))"
    by (rule Git_latest_tag_info_parses) (simp_all add: exits_with_def)
  show ?thesis
    by (simp add: run parse_describe_clean [OF v sha trail] py_lstrip_def)
qed

section \<open>The URLs of an SVN working copy\<close>

text \<open>
  What \<open>py_rindex\<close> computes: the index it returns is that of an occurrence, and no
  occurrence starts further right; it returns none only when there is no occurrence.
\<close>

lemma py_rindex_Some:
  assumes "py_rindex s sub = Some i"
  shows "i + length sub \<le> length s \<and> take (length sub) (drop i s) = sub \<and>
         (\<forall>j. i < j \<and> j + length sub \<le> length s \<longrightarrow> take (length sub) (drop j s) \<noteq> sub)"
proof -
  define k where "k = Suc (length s) - length sub"
  define P where "P = (\<lambda>i. take (length sub) (drop i s) = sub)"
  from assms obtain rest where "filter P (rev [0 ..< k]) = i # rest"
    by (auto simp: py_rindex_def k_def P_def split: list.splits)
  then obtain us vs where split: "rev [0 ..< k] = us @ i # vs"
    and before: "\<forall>u\<in>set us. \<not> P u" and here: "P i"
    by (auto simp: filter_eq_Cons_iff)
  have "i \<in> set (rev [0 ..< k])"
    using split by simp
  then have bound: "i < k"
    by simp
  have "sorted_wrt (>) (rev [0 ..< k])"
    by (simp add: sorted_wrt_rev)
  then have below: "\<forall>y\<in>set vs. y < i"
    unfolding split by (auto simp: sorted_wrt_append)
  have fits: "i + length sub \<le> length s"
    using bound unfolding k_def by arith
  have later: "\<not> P j" if "i < j" and "j + length sub \<le> length s" for j
  proof -
    have "j \<in> set (rev [0 ..< k])"
      using that by (simp add: k_def)
    then have "j \<in> set us"
      unfolding split using that(1) below by auto
    then show ?thesis
      using before by blast
  qed
  show ?thesis
    using fits here later by (simp add: P_def)
qed

lemma py_rindex_None:
  assumes "py_rindex s sub = None" and "j + length sub \<le> length s"
  shows "take (length sub) (drop j s) \<noteq> sub"
proof -
  have "filter (\<lambda>i. take (length sub) (drop i s) = sub) (rev [0 ..< Suc (length s) - length sub]) = []"
    using assms(1) by (simp add: py_rindex_def split: list.splits)
  moreover have "j \<in> set (rev [0 ..< Suc (length s) - length sub])"
    using assms(2) by simp
  ultimately show ?thesis
    by (simp add: filter_empty_conv)
qed

lemma py_slice_to_before: "0 < idx \<Longrightarrow> py_slice_to url (int idx - 1) = take (idx - 1) url"
  by (simp add: py_slice_to_def nat_diff_distrib')

lemma py_slice_to_after: "py_slice_to url (int idx + int n) = take (idx + n) url"
  by (simp add: py_slice_to_def nat_add_distrib)

lemma repo_urls_run:
  assumes "sys [''svn'', ''info''] (environ w) (files w) = (Exited 0 out, fs)"
  shows "fst (repo_urls sys w) = Inr (repo_urls_of (current_url_loop (py_split LF out)))"
  using assms by (simp add: repo_urls_def current_url_def check_output_def spawn_def)

lemma SVN_is_usable_run:
  assumes "sys [''svn'', ''info''] (environ w) (files w) = (Exited 0 out, fs)"
  shows "fst (is_usable sys SVN w) =
         Inr (py_bool (base (repo_urls_of (current_url_loop (py_split LF out)))))"
  using assms
  by (simp add: is_usable_def SVN_is_usable_def repo_urls_def current_url_def check_output_def
      spawn_def)

text \<open>
  Claim C6, as the code has it. For a URL in which \<^verbatim>\<open>branches\<close> does not occur, the
  derivation looks for \<^verbatim>\<open>branch\<close> first and for \<^verbatim>\<open>trunk\<close> only when \<^verbatim>\<open>branch\<close>
  does not occur; it takes the rightmost occurrence of the folder it found, \<^verbatim>\<open>root\<close>
  is the URL up to the end of that occurrence and \<^verbatim>\<open>base\<close> the URL up to one
  character before its start. When neither occurs, \<^verbatim>\<open>base\<close> and \<^verbatim>\<open>root\<close> are
  \<^verbatim>\<open>None\<close> and \<^verbatim>\<open>is_usable()\<close> is false.
\<close>

theorem repo_urls_first_folder:
  assumes "sys [''svn'', ''info''] (environ w) (files w) = (Exited 0 out, fs)"
    and "current_url_loop (py_split LF out) = Some url"
    and "py_rindex url ''branches'' = None"
  shows "fst (repo_urls sys w) =
           Inr (case py_rindex url ''branch'' of
                  Some idx \<Rightarrow>
                    \<lparr>base = Some (py_slice_to url (int idx - 1)),
                     root = Some (take (idx + 6) url), current = Some url\<rparr>
                | None \<Rightarrow>
                    (case py_rindex url ''trunk'' of
                       Some idx \<Rightarrow>
                         \<lparr>base = Some (py_slice_to url (int idx - 1)),
                          root = Some (take (idx + 5) url), current = Some url\<rparr>
                     | None \<Rightarrow> \<lparr>base = None, root = None, current = Some url\<rparr>)) \<and>
         (py_rindex url ''branch'' = None \<and> py_rindex url ''trunk'' = None \<longrightarrow>
            fst (is_usable sys SVN w) = Inr False)"
  using assms(3)
  by (simp add: repo_urls_run [where sys = sys and w = w, OF assms(1)]
      SVN_is_usable_run [where sys = sys and w = w, OF assms(1)]
      assms(2) repo_urls_of_def py_slice_to_after [of _ _ 6, simplified]
      py_slice_to_after [of _ _ 5, simplified] py_bool_def split: option.splits)

lemma trunk_url:
  "current_url_loop (py_split LF (svn_info ''http://host/project/trunk/sub'')) =
     Some ''http://host/project/trunk/sub''"
  "py_rindex ''http://host/project/trunk/sub'' ''branches'' = None"
  "py_rindex ''http://host/project/trunk/sub'' ''branch'' = None"
  "py_rindex ''http://host/project/trunk/sub'' ''trunk'' = Some 20"
  by code_simp+

lemma tags_url:
  "current_url_loop (py_split LF (svn_info ''http://host/project/tags/1.0'')) =
     Some ''http://host/project/tags/1.0''"
  "py_rindex ''http://host/project/tags/1.0'' ''branches'' = None"
  "py_rindex ''http://host/project/tags/1.0'' ''branch'' = None"
  "py_rindex ''http://host/project/tags/1.0'' ''trunk'' = None"
  by code_simp+

theorem repo_urls_first_folder_witness:
  "fst (repo_urls (exits_with 0 (svn_info ''http://host/project/trunk/sub'')) initial_world) =
     Inr \<lparr>base = Some ''http://host/project'', root = Some ''http://host/project/trunk'',
          current = Some ''http://host/project/trunk/sub''\<rparr> \<and>
   fst (repo_urls (exits_with 0 (svn_info ''http://host/project/tags/1.0'')) initial_world) =
     Inr \<lparr>base = None, root = None, current = Some ''http://host/project/tags/1.0''\<rparr> \<and>
   fst (is_usable (exits_with 0 (svn_info ''http://host/project/tags/1.0'')) SVN initial_world) =
     Inr False"
proof -
  have trunk: "exits_with 0 (svn_info ''http://host/project/trunk/sub'') [''svn'', ''info'']
      (environ initial_world) (files initial_world) =
      (Exited 0 (svn_info ''http://host/project/trunk/sub''), files initial_world)"
    and tags: "exits_with 0 (svn_info ''http://host/project/tags/1.0'') [''svn'', ''info'']
      (environ initial_world) (files initial_world) =
      (Exited 0 (svn_info ''http://host/project/tags/1.0''), files initial_world)"
    by (simp_all add: exits_with_def)
  show ?thesis
    using repo_urls_first_folder
        [where sys = "exits_with 0 (svn_info ''http://host/project/trunk/sub'')",
          OF trunk trunk_url(1,2)]
      repo_urls_first_folder
        [where sys = "exits_with 0 (svn_info ''http://host/project/tags/1.0'')",
          OF tags tags_url(1,2)]
    by (simp add: trunk_url tags_url py_slice_to_def)
qed

lemma branch_then_trunk_url:
  "current_url_loop (py_split LF (svn_info ''http://h/branch/p/trunk/s'')) =
     Some ''http://h/branch/p/trunk/s''"
  by code_simp

lemma branch_then_trunk_code:
  "repo_urls_of (Some ''http://h/branch/p/trunk/s'') =
     \<lparr>base = Some ''http://h'', root = Some ''http://h/branch'',
      current = Some ''http://h/branch/p/trunk/s''\<rparr>"
  by code_simp

lemma branch_then_trunk_spec:
  "rightmost_marker_urls ''http://h/branch/p/trunk/s'' =
     \<lparr>base = Some ''http://h/branch/p'', root = Some ''http://h/branch/p/trunk'',
      current = Some ''http://h/branch/p/trunk/s''\<rparr>"
  by code_simp

text \<open>
  Claim C6, as stated, takes the rightmost occurrence of any marker. In
  \<^verbatim>\<open>http://h/branch/p/trunk/s\<close> that is the occurrence of \<^verbatim>\<open>trunk\<close>; the code
  stops at \<^verbatim>\<open>branch\<close>, the first folder of its list that occurs.
\<close>

theorem repo_urls_not_rightmost_marker:
  "fst (repo_urls (exits_with 0 (svn_info ''http://h/branch/p/trunk/s'')) initial_world) =
     Inr \<lparr>base = Some ''http://h'', root = Some ''http://h/branch'',
          current = Some ''http://h/branch/p/trunk/s''\<rparr> \<and>
   rightmost_marker_urls ''http://h/branch/p/trunk/s'' =
     \<lparr>base = Some ''http://h/branch/p'', root = Some ''http://h/branch/p/trunk'',
      current = Some ''http://h/branch/p/trunk/s''\<rparr>"
proof -
  have "fst (repo_urls (exits_with 0 (svn_info ''http://h/branch/p/trunk/s'')) initial_world) =
      Inr (repo_urls_of (current_url_loop (py_split LF (svn_info ''http://h/branch/p/trunk/s''))))"
    by (rule repo_urls_run) (simp add: exits_with_def)
  then show ?thesis
    by (simp only: branch_then_trunk_url branch_then_trunk_code branch_then_trunk_spec simp_thms)
qed

end
